theory Spec2Isabelle
  imports Complex_Main
begin

section \<open>JavaScript values\<close>

text \<open>
  The rows that the SQLite driver hands to \<open>getProviders\<close> are typed \<open>any\<close>, and the
  payload of \<open>postMessage\<close> is typed \<open>any\<close> as well, so fields are modelled as untyped
  JavaScript values. A finite number is a real (every finite double is one; \<open>+0\<close> and
  \<open>-0\<close> are not told apart, which neither \<open>===\<close> nor truthiness does either); \<open>NaN\<close> and
  the infinities are constructors of their own. A property that an object does not have
  reads as \<open>JUndefined\<close>.
\<close>

datatype js_value =
    JUndefined
  | JNull
  | JBool bool
  | JNumber real
  | JNaN
  | JInfinity bool
  | JBigInt int
  | JString string
  | JObject "(string \<times> js_value) list"
  | JArray "js_value list"

text \<open>ToBoolean: what \<open>x || y\<close>, \<open>c ? a : b\<close> and \<open>if (!x)\<close> test.\<close>

fun truthy :: "js_value \<Rightarrow> bool" where
  "truthy JUndefined = False"
| "truthy JNull = False"
| "truthy (JBool b) = b"
| "truthy (JNumber x) = (x \<noteq> 0)"
| "truthy JNaN = False"
| "truthy (JInfinity s) = True"
| "truthy (JBigInt n) = (n \<noteq> 0)"
| "truthy (JString s) = (s \<noteq> [])"
| "truthy (JObject ps) = True"
| "truthy (JArray vs) = True"

text \<open>\<open>a || b\<close> on values: the left operand when it is truthy, the right one otherwise.\<close>

definition js_or :: "js_value \<Rightarrow> js_value \<Rightarrow> js_value" where
  "js_or a b = (if truthy a then a else b)"

text \<open>\<open>v === n\<close> for a number literal \<open>n\<close>: the types must agree, then the values.\<close>

fun strict_eq_number :: "js_value \<Rightarrow> real \<Rightarrow> bool" where
  "strict_eq_number (JNumber x) n = (x = n)"
| "strict_eq_number v n = False"

section \<open>Errors, log lines and the outside world\<close>

text \<open>
  Thrown values. \<open>WebViewNotInitialized\<close> is \<open>new Error('WebView not initialized')\<close>,
  \<open>CannotOpenCCSwitch\<close> is the error constructed in the callback of \<open>exec\<close>;
  \<open>External\<close> is anything thrown by the SQLite driver, by \<open>JSON.parse\<close> or by
  \<open>child_process\<close>.
\<close>

datatype error =
    WebViewNotInitialized
  | CannotOpenCCSwitch
  | External string

text \<open>The kind of a file change: \<open>'created' | 'modified' | 'deleted'\<close>.\<close>

datatype change_type = Created | Modified | Deleted

text \<open>
  The log lines of the services, one constructor for each call of the log service (the
  lines written by the constructors apart), with the values that the line interpolates.
\<close>

datatype log_line =
    WarnNotInstalled
  | InfoProvidersRead nat
  | ErrorReadFailed error
  | InfoActiveProvider js_value
  | InfoNoActiveProvider
  | WarnCannotAutoOpen
  | InfoOpened
  | ErrorOpenFailed error
  | InfoHandlerOpening
  | ErrorHandlerOpenFailed error
  | WarnNoDirectory
  | InfoWatching string string
  | InfoFileChanged string change_type string

text \<open>
  What a call does to the outside, in the order it happens: a log line, a connection
  opened by \<open>new Database(dbPath, { readonly })\<close> (the flag is the \<open>readonly\<close> option), the
  query \<open>prepare(sql).all()\<close>, and \<open>db.close()\<close>.
\<close>

datatype event =
    Log log_line
  | DbOpen bool
  | DbQueryAll string
  | DbClose

text \<open>
  A stored row of the table \<open>providers\<close>. The identifier is the integer key of the schema;
  every other column arrives as whatever value the driver produces (\<open>JUndefined\<close> for a
  column the table does not have).
\<close>

record row =
  r_id :: int
  r_name :: js_value
  r_api_key :: js_value
  r_base_url :: js_value
  r_is_active :: js_value
  r_preset :: js_value
  r_models :: js_value
  r_created_at :: js_value
  r_updated_at :: js_value

text \<open>
  The world a call runs in. \<open>db_exists\<close> is \<open>fs.existsSync(dbPath)\<close>; \<open>db_open\<close> is the
  error thrown by \<open>new Database\<close>, if any; \<open>db_table\<close> is either the error thrown by
  \<open>prepare(...).all()\<close> (no such table, corrupt file) or the rows of the table in the order
  in which they were inserted;
  \<open>db_close\<close> is the error thrown by \<open>db.close()\<close>, if any; \<open>JSON_parse\<close> is the built-in
  parser (\<open>Inl\<close> when it throws); \<open>trace\<close> collects the events.
\<close>

record world =
  db_exists :: bool
  db_open :: "error option"
  db_table :: "error + row list"
  db_close :: "error option"
  JSON_parse :: "js_value \<Rightarrow> error + js_value"
  trace :: "event list"

text \<open>A computation either throws (\<open>Inl\<close>) or returns (\<open>Inr\<close>), and leaves a new world.\<close>

type_synonym 'a io = "world \<Rightarrow> (error + 'a) \<times> world"

definition emit :: "event \<Rightarrow> world \<Rightarrow> world" where
  "emit e w = w\<lparr>trace := trace w @ [e]\<rparr>"

definition return_io :: "'a \<Rightarrow> 'a io" where
  "return_io v w = (Inr v, w)"

definition log_io :: "log_line \<Rightarrow> unit io" where
  "log_io l w = (Inr (), emit (Log l) w)"

text \<open>Sequencing: a throw skips the rest.\<close>

definition bind_io :: "'a io \<Rightarrow> ('a \<Rightarrow> 'b io) \<Rightarrow> 'b io" where
  "bind_io m f w = (case m w of (Inl e, w1) \<Rightarrow> (Inl e, w1) | (Inr v, w1) \<Rightarrow> f v w1)"

text \<open>\<open>try { body } catch (error) { handler }\<close>.\<close>

definition try_catch :: "'a io \<Rightarrow> (error \<Rightarrow> 'a io) \<Rightarrow> 'a io" where
  "try_catch body handler w =
     (case body w of (Inl e, w1) \<Rightarrow> handler e w1 | (Inr v, w1) \<Rightarrow> (Inr v, w1))"

text \<open>
  \<open>try { body } finally { fin }\<close>: \<open>fin\<close> runs whatever \<open>body\<close> did; a throw of \<open>fin\<close>
  replaces the outcome of \<open>body\<close>, otherwise the outcome of \<open>body\<close> stands.
\<close>

definition try_finally :: "'a io \<Rightarrow> unit io \<Rightarrow> 'a io" where
  "try_finally body fin w =
     (case body w of (r, w1) \<Rightarrow>
        (case fin w1 of (Inl e, w2) \<Rightarrow> (Inl e, w2) | (Inr u, w2) \<Rightarrow> (r, w2)))"

section \<open>The SQLite driver\<close>

text \<open>\<open>new Database(dbPath, { readonly })\<close>: throws, or yields an open connection.\<close>

definition new_Database :: "bool \<Rightarrow> unit io" where
  "new_Database readonly w =
     (case db_open w of Some e \<Rightarrow> (Inl e, w) | None \<Rightarrow> (Inr (), emit (DbOpen readonly) w))"

text \<open>
  The engine, on the statements about the table \<open>providers\<close> that the model understands:
  with \<open>ORDER BY id\<close> the rows come in ascending order of their identifiers; without it
  they come as the table holds them, in the order of insertion; any other text is refused.
  The order of the result is the engine's answer to the text it is sent, so a caller
  that leaves \<open>ORDER BY id\<close> out gets the rows unsorted.
\<close>

definition run_select :: "string \<Rightarrow> row list \<Rightarrow> error + row list" where
  "run_select sql t =
     (if sql = ''SELECT * FROM providers ORDER BY id'' then Inr (sort_key r_id t)
      else if sql = ''SELECT * FROM providers'' then Inr t
      else Inl (External ''SQLITE_ERROR''))"

text \<open>\<open>db.prepare(sql).all()\<close>: throws, or yields what the engine answers to \<open>sql\<close>.\<close>

definition prepare_all :: "string \<Rightarrow> (row list) io" where
  "prepare_all sql w =
     (case db_table w of
        Inl e \<Rightarrow> (Inl e, emit (DbQueryAll sql) w)
      | Inr t \<Rightarrow> (run_select sql t, emit (DbQueryAll sql) w))"

text \<open>The statement that \<open>getProviders\<close> prepares.\<close>

definition select_all_order_by_id :: "string"  where
  "select_all_order_by_id = ''SELECT * FROM providers ORDER BY id''"

text \<open>\<open>db.close()\<close>.\<close>

definition db_close_io :: "unit io" where
  "db_close_io w =
     (case db_close w of Some e \<Rightarrow> (Inl e, emit DbClose w) | None \<Rightarrow> (Inr (), emit DbClose w))"

section \<open>CCSwitchService\<close>

record CCSwitchProvider =
  provider_id :: int
  name :: js_value
  apiKey :: js_value
  baseUrl :: js_value
  isActive :: bool
  preset :: js_value
  models :: js_value
  createdAt :: js_value
  updatedAt :: js_value

text \<open>\<open>parseModels\<close>: \<open>try { return JSON.parse(modelsJson) } catch { return undefined }\<close>.\<close>

definition parseModels :: "(js_value \<Rightarrow> error + js_value) \<Rightarrow> js_value \<Rightarrow> js_value" where
  "parseModels parse modelsJson = (case parse modelsJson of Inl e \<Rightarrow> JUndefined | Inr v \<Rightarrow> v)"

text \<open>The arrow function given to \<open>rows.map\<close> in \<open>getProviders\<close>.\<close>

definition toProvider :: "(js_value \<Rightarrow> error + js_value) \<Rightarrow> row \<Rightarrow> CCSwitchProvider" where
  "toProvider parse r =
     \<lparr> provider_id = r_id r,
       name = js_or (r_name r) (JString ''Unknown''),
       apiKey = js_or (r_api_key r) (JString ''''),
       baseUrl = js_or (r_base_url r) JUndefined,
       isActive = strict_eq_number (r_is_active r) 1,
       preset = js_or (r_preset r) JUndefined,
       models = (if truthy (r_models r) then parseModels parse (r_models r) else JUndefined),
       createdAt = r_created_at r,
       updatedAt = r_updated_at r \<rparr>"

definition isInstalled :: "world \<Rightarrow> bool" where
  "isInstalled w = db_exists w"

definition getProviders :: "(CCSwitchProvider list) io" where
  "getProviders w =
     (if \<not> isInstalled w then bind_io (log_io WarnNotInstalled) (\<lambda>u. return_io []) w
      else
        try_catch
          (bind_io (new_Database True) (\<lambda>db.
             try_finally
               (bind_io (prepare_all select_all_order_by_id) (\<lambda>rows.
                  let providers = map (toProvider (JSON_parse w)) rows in
                  bind_io (log_io (InfoProvidersRead (length providers))) (\<lambda>u.
                  return_io providers)))
               db_close_io))
          (\<lambda>e. bind_io (log_io (ErrorReadFailed e)) (\<lambda>u. return_io []))
          w)"

text \<open>
  \<open>getActiveProvider\<close>: \<open>providers.find(p => p.isActive)\<close>, a log line, and
  \<open>active || null\<close> (\<open>None\<close> is \<open>null\<close>).
\<close>

definition getActiveProvider :: "(CCSwitchProvider option) io" where
  "getActiveProvider =
     bind_io getProviders (\<lambda>providers.
       let active = find isActive providers in
       bind_io (log_io (case active of Some a \<Rightarrow> InfoActiveProvider (name a)
                                     | None \<Rightarrow> InfoNoActiveProvider)) (\<lambda>u.
       return_io active))"

text \<open>
  \<open>openCCSwitch\<close>. \<open>process.platform\<close> is a string; the command is chosen from it.
\<close>

definition launch_command :: "string \<Rightarrow> string" where
  \<open>launch_command platform =
     (if platform = ''darwin'' then ''open -a "CC-Switch" || open -a "cc-switch"''
      else if platform = ''win32'' then ''start "" "CC-Switch.exe" || start "" "cc-switch.exe"''
      else ''cc-switch || CC-Switch || flatpak run com.ccswitch.app'')\<close>

text \<open>
  \<open>child_process.exec(command, callback)\<close>: \<open>exec_throws\<close> is the error that the call
  itself throws, if any; \<open>exec_error\<close> is the error that the callback receives once the
  child process has ended (\<open>None\<close> is \<open>null\<close>: the command succeeded).
\<close>

record launcher =
  exec_throws :: "string \<Rightarrow> error option"
  exec_error :: "string \<Rightarrow> error option"

text \<open>
  What a caller of the \<open>async\<close> function observes: how the returned promise settles
  (\<open>Inl\<close> is a rejection), an exception that left the callback of \<open>exec\<close> with nothing
  to catch it, and the log lines.
\<close>

record open_outcome =
  promise :: "error + unit"
  uncaught :: "error option"
  open_log :: "log_line list"

text \<open>
  The body of the \<open>async\<close> function, up to its end: the \<open>try\<close> block picks the command
  and calls \<open>exec\<close>, which only starts the child and registers the callback; the
  \<open>catch\<close> block logs and rethrows. The value returned here is the command whose
  callback is pending.
\<close>

definition openCCSwitch_body :: "string \<Rightarrow> launcher \<Rightarrow> (error + string) \<times> log_line list" where
  "openCCSwitch_body platform l =
     (let command = launch_command platform in
      case exec_throws l command of
        Some e \<Rightarrow> (Inl e, [ErrorOpenFailed e])
      | None \<Rightarrow> (Inr command, []))"

text \<open>The callback given to \<open>exec\<close>: \<open>(error) => { if (error) { warn; throw } else { info } }\<close>.\<close>

definition exec_callback :: "error option \<Rightarrow> (error + unit) \<times> log_line list" where
  "exec_callback err =
     (case err of
        Some e \<Rightarrow> (Inl CannotOpenCCSwitch, [WarnCannotAutoOpen])
      | None \<Rightarrow> (Inr (), [InfoOpened]))"

text \<open>
  The body has no \<open>await\<close>, so the promise settles with the outcome of the body. The
  callback runs later, from the event loop, when the \<open>try\<close> block has long been left:
  what it throws reaches neither the \<open>catch\<close> block nor the promise.
\<close>

definition openCCSwitch :: "string \<Rightarrow> launcher \<Rightarrow> open_outcome" where
  "openCCSwitch platform l =
     (case openCCSwitch_body platform l of
        (Inl e, lg) \<Rightarrow> \<lparr> promise = Inl e, uncaught = None, open_log = lg \<rparr>
      | (Inr command, lg) \<Rightarrow>
          (case exec_callback (exec_error l command) of
             (r, lg2) \<Rightarrow>
               \<lparr> promise = Inr (),
                 uncaught = (case r of Inl e \<Rightarrow> Some e | Inr u \<Rightarrow> None),
                 open_log = lg @ lg2 \<rparr>))"

text \<open>
  \<open>handleOpenCCSwitch\<close>, the caller: an info line, then \<open>try { await openCCSwitch();
  success } catch { log; failure with the message }\<close>. It sees the promise and nothing
  else.
\<close>

record OpenCCSwitchResponse =
  success :: bool
  response_error :: "error option"

definition handleOpenCCSwitch :: "string \<Rightarrow> launcher \<Rightarrow> OpenCCSwitchResponse \<times> log_line list" where
  "handleOpenCCSwitch platform l =
     (case promise (openCCSwitch platform l) of
        Inr u \<Rightarrow> (\<lparr> success = True, response_error = None \<rparr>, [InfoHandlerOpening])
      | Inl e \<Rightarrow> (\<lparr> success = False, response_error = Some e \<rparr>,
                 [InfoHandlerOpening, ErrorHandlerOpenFailed e]))"

section \<open>WebViewService\<close>

text \<open>
  The presentation surface (\<open>vscode.Webview\<close>) as far as the service touches it: the
  \<open>enableScripts\<close> option, the markup, and the messages that \<open>webview.postMessage\<close> has
  delivered to it, oldest first.
\<close>

record surface =
  enableScripts :: bool
  html :: string
  received :: "js_value list"

text \<open>The field \<open>webview\<close> of the service: \<open>None\<close> until \<open>resolveWebviewView\<close> has run.\<close>

record WebViewService =
  webview :: "surface option"

definition new_WebViewService :: "WebViewService" where
  "new_WebViewService = \<lparr> webview = None \<rparr>"

text \<open>
  \<open>resolveWebviewView\<close>: sets the options and the markup of the surface and keeps the
  surface. The markup is the result of \<open>getHtmlForWebview\<close>, which draws a random nonce;
  it is taken as given.
\<close>

definition resolveWebviewView :: "string \<Rightarrow> surface \<Rightarrow> WebViewService \<Rightarrow> WebViewService" where
  "resolveWebviewView page wv s = s\<lparr>webview := Some (wv\<lparr>enableScripts := True, html := page\<rparr>)\<rparr>"

definition getWebView :: "WebViewService \<Rightarrow> surface option" where
  "getWebView s = webview s"

definition postMessage :: "js_value \<Rightarrow> WebViewService \<Rightarrow> (error + unit) \<times> WebViewService" where
  "postMessage message s =
     (case webview s of
        None \<Rightarrow> (Inl WebViewNotInitialized, s)
      | Some wv \<Rightarrow>
          (Inr (),
           s\<lparr>webview := Some (wv\<lparr>received := received wv @
                [JObject [(''type'', JString ''from-extension''), (''message'', message)]]\<rparr>)\<rparr>))"

section \<open>FileWatcherService\<close>

record FileChangeEvent =
  filePath :: string
  changeType :: change_type
  timestamp :: int

text \<open>
  A raw event: one firing of \<open>onDidCreate\<close>, \<open>onDidChange\<close> or \<open>onDidDelete\<close>, with the
  path of its \<open>uri\<close>, the kind that the subscription passes to \<open>handleChange\<close>, the value
  that \<open>Date.now()\<close> returns in the handler (milliseconds since the epoch) and the one
  that \<open>new Date()\<close> holds.
\<close>

record raw_event =
  fsPath :: string
  kind :: change_type
  now :: int
  date :: int

text \<open>
  The closure state of one call of \<open>watchFile\<close>: the parameter \<open>label\<close>, the variable
  \<open>lastModTime\<close>, the invocations of the registered callback so far and the lines that the
  handler has logged, oldest first.
\<close>

record watch =
  label :: string
  lastModTime :: int
  calls :: "FileChangeEvent list"
  logged :: "log_line list"

definition debounceMs :: int where
  "debounceMs = 500"

definition handleChange :: "raw_event \<Rightarrow> watch \<Rightarrow> watch" where
  "handleChange ev s =
     (if now ev - lastModTime s < debounceMs then s
      else s\<lparr> lastModTime := now ev,
              logged := logged s @ [InfoFileChanged (label s) (kind ev) (fsPath ev)],
              calls := calls s @
                [\<lparr> filePath = fsPath ev, changeType = kind ev, timestamp = date ev \<rparr>] \<rparr>)"

text \<open>
  \<open>watchFile(filePath, label, callback)\<close>, with \<open>fs.existsSync(dir)\<close> as its first
  argument: the line it logs, and the watch instance it registers. No handler is
  registered when the directory does not exist (\<open>None\<close>, the no-op disposable); otherwise
  the three subscriptions share one handler, which starts with \<open>lastModTime = 0\<close>.
\<close>

definition watchFile :: "bool \<Rightarrow> string \<Rightarrow> string \<Rightarrow> log_line \<times> watch option" where
  "watchFile dir_exists file_path lbl =
     (if \<not> dir_exists then (WarnNoDirectory, None)
      else (InfoWatching lbl file_path,
            Some \<lparr> label = lbl, lastModTime = 0, calls = [], logged = [] \<rparr>))"

text \<open>\<open>watchClaudeSettings\<close> and \<open>watchCCSwitchDatabase\<close>, for a given path.\<close>

definition watchClaudeSettings :: "bool \<Rightarrow> string \<Rightarrow> log_line \<times> watch option" where
  "watchClaudeSettings dir_exists claudeSettingsPath =
     watchFile dir_exists claudeSettingsPath ''Claude Settings''"

definition watchCCSwitchDatabase :: "bool \<Rightarrow> string \<Rightarrow> log_line \<times> watch option" where
  "watchCCSwitchDatabase dir_exists ccSwitchDbPath =
     watchFile dir_exists ccSwitchDbPath ''CC-Switch Database''"

text \<open>The events delivered to one watch instance, in order.\<close>

definition deliver :: "raw_event list \<Rightarrow> watch \<Rightarrow> watch" where
  "deliver evs s = fold handleChange evs s"

text \<open>
  The gate in the words of the specification, for comparison: an event that arrives less
  than 500 ms after the last accepted event is dropped; any other event is accepted and
  reaches the callback once, with its own kind. The first component is the last accepted
  event, if there is one.
\<close>

fun spec_gate :: "raw_event option \<Rightarrow> raw_event list \<Rightarrow> raw_event option \<times> FileChangeEvent list" where
  "spec_gate prev [] = (prev, [])"
| "spec_gate prev (ev # evs) =
     (if (case prev of None \<Rightarrow> False | Some a \<Rightarrow> now ev - now a < 500)
      then spec_gate prev evs
      else (case spec_gate (Some ev) evs of
              (l, cs) \<Rightarrow>
                (l, \<lparr> filePath = fsPath ev, changeType = kind ev, timestamp = date ev \<rparr> # cs)))"

section \<open>Auxiliary definitions\<close>

text \<open>The events of the trace that are calls of the SQLite driver.\<close>

fun is_db_event :: "event \<Rightarrow> bool" where
  "is_db_event (Log l) = False"
| "is_db_event (DbOpen b) = True"
| "is_db_event (DbQueryAll q) = True"
| "is_db_event DbClose = True"

text \<open>
  Sample data for the worked examples below: a parser that accepts the text \<open>{}\<close> only, a
  row with the columns that matter filled in, a world in which the database file exists
  and every driver call succeeds, and a launcher whose command starts and then fails.
\<close>

definition example_parse :: "js_value \<Rightarrow> error + js_value" where
  "example_parse v = (if v = JString ''{}'' then Inr (JObject []) else Inl (External ''SyntaxError''))"

definition provider_row :: "int \<Rightarrow> js_value \<Rightarrow> js_value \<Rightarrow> js_value \<Rightarrow> row" where
  "provider_row i n a m =
     \<lparr> r_id = i, r_name = n, r_api_key = JString ''sk-test'', r_base_url = JNull,
       r_is_active = a, r_preset = JNull, r_models = m,
       r_created_at = JUndefined, r_updated_at = JUndefined \<rparr>"

definition world_with :: "row list \<Rightarrow> world" where
  "world_with t =
     \<lparr> db_exists = True, db_open = None, db_table = Inr t, db_close = None,
       JSON_parse = example_parse, trace = [] \<rparr>"

definition failing_launcher :: launcher where
  "failing_launcher =
     \<lparr> exec_throws = (\<lambda>c. None), exec_error = (\<lambda>c. Some (External ''Command failed'')) \<rparr>"

text \<open>
  For the watcher: a path of the settings file, the watch instance that
  \<open>watchClaudeSettings\<close> registers for it, and a raw event for that path whose two clock
  readings agree.
\<close>

definition settings_path :: string where
  "settings_path = ''/home/user/.claude/settings.json''"

definition settings_watch :: watch where
  "settings_watch = \<lparr> label = ''Claude Settings'', lastModTime = 0, calls = [], logged = [] \<rparr>"

definition settings_event :: "change_type \<Rightarrow> int \<Rightarrow> raw_event" where
  "settings_event k t = \<lparr> fsPath = settings_path, kind = k, now = t, date = t \<rparr>"

section \<open>What \<open>getProviders\<close> computes\<close>

text \<open>The result and the trace of \<open>getProviders\<close>, path by path.\<close>

lemma run_select_order_by_id: "run_select select_all_order_by_id t = Inr (sort_key r_id t)"
  by (simp add: run_select_def select_all_order_by_id_def)

lemma getProviders_eval:
  "getProviders w =
     (if \<not> db_exists w then (Inr [], emit (Log WarnNotInstalled) w)
      else case db_open w of
        Some e \<Rightarrow> (Inr [], emit (Log (ErrorReadFailed e)) w)
      | None \<Rightarrow>
         (case db_table w of
            Inl e \<Rightarrow>
              (case db_close w of
                 Some e' \<Rightarrow> (Inr [], emit (Log (ErrorReadFailed e')) (emit DbClose (emit (DbQueryAll select_all_order_by_id) (emit (DbOpen True) w))))
               | None \<Rightarrow> (Inr [], emit (Log (ErrorReadFailed e)) (emit DbClose (emit (DbQueryAll select_all_order_by_id) (emit (DbOpen True) w)))))
          | Inr t \<Rightarrow>
              (case db_close w of
                 Some e' \<Rightarrow> (Inr [], emit (Log (ErrorReadFailed e')) (emit DbClose (emit (Log (InfoProvidersRead (length t))) (emit (DbQueryAll select_all_order_by_id) (emit (DbOpen True) w)))))
               | None \<Rightarrow> (Inr (map (toProvider (JSON_parse w)) (sort_key r_id t)),
                     emit DbClose (emit (Log (InfoProvidersRead (length t))) (emit (DbQueryAll select_all_order_by_id) (emit (DbOpen True) w)))))))"
  by (simp add: getProviders_def isInstalled_def bind_io_def log_io_def return_io_def
      try_catch_def try_finally_def new_Database_def prepare_all_def run_select_order_by_id
      db_close_io_def emit_def Let_def
      split: option.splits sum.splits)

lemma getProviders_value:
  "fst (getProviders w) =
     Inr (if db_exists w \<and> db_open w = None \<and> db_close w = None
          then (case db_table w of Inl e \<Rightarrow> [] | Inr t \<Rightarrow> map (toProvider (JSON_parse w)) (sort_key r_id t))
          else [])"
  by (simp add: getProviders_eval split: option.splits sum.splits)

lemma provider_id_toProvider: "provider_id (toProvider parse r) = r_id r"
  by (simp add: toProvider_def)

lemma map_provider_id: "map provider_id (map (toProvider parse) rs) = map r_id rs"
  by (simp add: provider_id_toProvider)

lemma getProviders_sorted:
  "fst (getProviders w) = Inr ps \<Longrightarrow> sorted (map provider_id ps)"
  by (auto simp: getProviders_value map_provider_id simp del: map_map split: if_splits sum.splits)

lemma getActiveProvider_value:
  "fst (getProviders w) = Inr ps \<Longrightarrow> fst (getActiveProvider w) = Inr (find isActive ps)"
  by (cases "getProviders w")
     (simp add: getActiveProvider_def bind_io_def log_io_def return_io_def Let_def)

lemma strict_eq_number_iff: "strict_eq_number v n \<longleftrightarrow> v = JNumber n"
  by (cases v) auto

lemma isActive_toProvider: "isActive (toProvider parse r) \<longleftrightarrow> r_is_active r = JNumber 1"
  by (simp add: toProvider_def strict_eq_number_iff)

lemma try_finally_close_trace:
  "trace (snd (try_finally body db_close_io w)) = trace (snd (body w)) @ [DbClose]"
  by (cases "body w")
     (simp add: try_finally_def db_close_io_def emit_def split: option.splits)

section \<open>The provider reader\<close>

text \<open>
  C2. In every world \<open>getProviders\<close> returns and does not throw. The records it returns
  are in ascending order of their identifiers. The result is empty when the database file
  is absent and when opening, querying or closing the database throws; when all of these
  succeed, the result is the image of the rows of the table, one record for each row, in
  the order of the identifiers, which the engine gives in answer to \<open>ORDER BY id\<close>. That
  order is the order of insertion when the identifiers ascend in the order of insertion.
\<close>

theorem getProviders_ordered:
  "\<exists>ps. fst (getProviders w) = Inr ps \<and>
        sorted (map provider_id ps) \<and>
        (\<not> db_exists w \<or> db_open w \<noteq> None \<or> isl (db_table w) \<or> db_close w \<noteq> None \<longrightarrow> ps = []) \<and>
        (\<forall>t. db_exists w \<and> db_open w = None \<and> db_table w = Inr t \<and> db_close w = None \<longrightarrow>
             ps = map (toProvider (JSON_parse w)) (sort_key r_id t) \<and>
             length ps = length t \<and> set (map provider_id ps) = r_id ` set t \<and>
             (sorted (map r_id t) \<longrightarrow> ps = map (toProvider (JSON_parse w)) t))"
proof -
  obtain ps where ps: "fst (getProviders w) = Inr ps"
    by (simp add: getProviders_value)
  have "sorted (map provider_id ps)"
    using ps by (rule getProviders_sorted)
  moreover have "\<not> db_exists w \<or> db_open w \<noteq> None \<or> isl (db_table w) \<or> db_close w \<noteq> None \<longrightarrow> ps = []"
    using ps by (auto simp: getProviders_value split: if_splits sum.splits)
  moreover have "\<forall>t. db_exists w \<and> db_open w = None \<and> db_table w = Inr t \<and> db_close w = None \<longrightarrow>
             ps = map (toProvider (JSON_parse w)) (sort_key r_id t) \<and>
             length ps = length t \<and> set (map provider_id ps) = r_id ` set t \<and>
             (sorted (map r_id t) \<longrightarrow> ps = map (toProvider (JSON_parse w)) t)"
    using ps
    by (auto simp: getProviders_value image_image provider_id_toProvider sort_key_id_if_sorted)
  ultimately show ?thesis using ps by blast
qed

theorem getProviders_ordered_witness:
  "db_exists (world_with [provider_row 1 (JString ''A'') (JNumber 0) JNull,
                          provider_row 2 (JString ''B'') (JNumber 1) JNull,
                          provider_row 5 (JString ''C'') (JNumber 0) JNull]) \<and>
   sorted (map r_id [provider_row 1 (JString ''A'') (JNumber 0) JNull,
                     provider_row 2 (JString ''B'') (JNumber 1) JNull,
                     provider_row 5 (JString ''C'') (JNumber 0) JNull]) \<and>
   fst (getProviders (world_with [provider_row 1 (JString ''A'') (JNumber 0) JNull,
                          provider_row 2 (JString ''B'') (JNumber 1) JNull,
                          provider_row 5 (JString ''C'') (JNumber 0) JNull])) =
     Inr (map (toProvider example_parse)
            [provider_row 1 (JString ''A'') (JNumber 0) JNull,
             provider_row 2 (JString ''B'') (JNumber 1) JNull,
             provider_row 5 (JString ''C'') (JNumber 0) JNull]) \<and>
   (\<exists>ps. fst (getProviders (world_with [provider_row 3 (JString ''C'') (JNumber 0) JNull,
                          provider_row 1 (JString ''A'') (JNumber 0) JNull,
                          provider_row 2 (JString ''B'') (JNumber 1) JNull])) = Inr ps \<and>
         map provider_id ps = [1, 2, 3] \<and> map name ps = [JString ''A'', JString ''B'', JString ''C'']) \<and>
   db_open ((world_with []) \<lparr> db_open := Some (External ''SQLITE_CANTOPEN'') \<rparr>) \<noteq> None \<and>
   fst (getProviders ((world_with []) \<lparr> db_open := Some (External ''SQLITE_CANTOPEN'') \<rparr>)) = Inr []"
  using getProviders_ordered [of "world_with [provider_row 1 (JString ''A'') (JNumber 0) JNull,
                          provider_row 2 (JString ''B'') (JNumber 1) JNull,
                          provider_row 5 (JString ''C'') (JNumber 0) JNull]"]
        getProviders_ordered [of "world_with [provider_row 3 (JString ''C'') (JNumber 0) JNull,
                          provider_row 1 (JString ''A'') (JNumber 0) JNull,
                          provider_row 2 (JString ''B'') (JNumber 1) JNull]"]
        getProviders_ordered [of "(world_with []) \<lparr> db_open := Some (External ''SQLITE_CANTOPEN'') \<rparr>"]
  by (simp add: world_with_def provider_row_def toProvider_def js_or_def)

text \<open>
  Rows inserted with the identifiers 3, 1 and 2, in this order, come back with the
  identifiers 1, 2 and 3: in ascending order, which is not the order of insertion.
\<close>

theorem getProviders_ordered_counterexample:
  "db_table (world_with [provider_row 3 (JString ''C'') (JNumber 0) JNull,
                         provider_row 1 (JString ''A'') (JNumber 0) JNull,
                         provider_row 2 (JString ''B'') (JNumber 1) JNull]) =
     Inr [provider_row 3 (JString ''C'') (JNumber 0) JNull,
          provider_row 1 (JString ''A'') (JNumber 0) JNull,
          provider_row 2 (JString ''B'') (JNumber 1) JNull] \<and>
   fst (getProviders (world_with [provider_row 3 (JString ''C'') (JNumber 0) JNull,
                         provider_row 1 (JString ''A'') (JNumber 0) JNull,
                         provider_row 2 (JString ''B'') (JNumber 1) JNull])) =
     Inr (map (toProvider example_parse)
            [provider_row 1 (JString ''A'') (JNumber 0) JNull,
             provider_row 2 (JString ''B'') (JNumber 1) JNull,
             provider_row 3 (JString ''C'') (JNumber 0) JNull]) \<and>
   map provider_id (map (toProvider example_parse)
            [provider_row 1 (JString ''A'') (JNumber 0) JNull,
             provider_row 2 (JString ''B'') (JNumber 1) JNull,
             provider_row 3 (JString ''C'') (JNumber 0) JNull]) = [1, 2, 3] \<and>
   map r_id [provider_row 3 (JString ''C'') (JNumber 0) JNull,
             provider_row 1 (JString ''A'') (JNumber 0) JNull,
             provider_row 2 (JString ''B'') (JNumber 1) JNull] = [3, 1, 2] \<and>
   map (toProvider example_parse)
            [provider_row 1 (JString ''A'') (JNumber 0) JNull,
             provider_row 2 (JString ''B'') (JNumber 1) JNull,
             provider_row 3 (JString ''C'') (JNumber 0) JNull] \<noteq>
   map (toProvider example_parse)
            [provider_row 3 (JString ''C'') (JNumber 0) JNull,
             provider_row 1 (JString ''A'') (JNumber 0) JNull,
             provider_row 2 (JString ''B'') (JNumber 1) JNull]"
  by (simp add: getProviders_value world_with_def provider_row_def toProvider_def js_or_def)

text \<open>
  C3. \<open>getActiveProvider\<close> returns the result of \<open>find\<close> on what \<open>getProviders\<close> returns in
  the same world: nothing when no record is flagged, and otherwise the flagged record at
  the least position, whose identifier is below that of every other flagged record; with
  several flagged records this is a value, not an error.
\<close>

theorem getActiveProvider_first:
  "\<exists>ps. fst (getProviders w) = Inr ps \<and>
        fst (getActiveProvider w) = Inr (find isActive ps) \<and>
        ((\<forall>p\<in>set ps. \<not> isActive p) \<longrightarrow> fst (getActiveProvider w) = Inr None) \<and>
        ((\<exists>p\<in>set ps. isActive p) \<longrightarrow>
           (\<exists>i<length ps. fst (getActiveProvider w) = Inr (Some (ps ! i)) \<and>
              isActive (ps ! i) \<and>
              (\<forall>j<i. \<not> isActive (ps ! j)) \<and>
              (\<forall>q\<in>set ps. isActive q \<longrightarrow> provider_id (ps ! i) \<le> provider_id q)))"
proof -
  obtain ps where ps: "fst (getProviders w) = Inr ps"
    by (simp add: getProviders_value)
  have act: "fst (getActiveProvider w) = Inr (find isActive ps)"
    using ps by (rule getActiveProvider_value)
  have srt: "sorted (map provider_id ps)"
    using ps by (rule getProviders_sorted)
  have none: "(\<forall>p\<in>set ps. \<not> isActive p) \<longrightarrow> fst (getActiveProvider w) = Inr None"
    by (simp add: act find_None_iff)
  have some: "(\<exists>p\<in>set ps. isActive p) \<longrightarrow>
           (\<exists>i<length ps. fst (getActiveProvider w) = Inr (Some (ps ! i)) \<and>
              isActive (ps ! i) \<and>
              (\<forall>j<i. \<not> isActive (ps ! j)) \<and>
              (\<forall>q\<in>set ps. isActive q \<longrightarrow> provider_id (ps ! i) \<le> provider_id q))"
  proof
    assume "\<exists>p\<in>set ps. isActive p"
    then obtain p where "find isActive ps = Some p"
      by (cases "find isActive ps") (auto simp: find_None_iff)
    then obtain i where i: "i < length ps" "isActive (ps ! i)" "p = ps ! i" "\<forall>j<i. \<not> isActive (ps ! j)"
      by (auto simp: find_Some_iff)
    have "provider_id (ps ! i) \<le> provider_id q" if q: "q \<in> set ps" "isActive q" for q
    proof -
      from q obtain k where k: "k < length ps" "ps ! k = q"
        by (auto simp: in_set_conv_nth)
      with q i have "i \<le> k" by (metis not_le_imp_less)
      then have "map provider_id ps ! i \<le> map provider_id ps ! k"
        using srt k by (simp add: sorted_iff_nth_mono del: nth_map)
      then show ?thesis using k i by simp
    qed
    with i act \<open>find isActive ps = Some p\<close> show "\<exists>i<length ps. fst (getActiveProvider w) = Inr (Some (ps ! i)) \<and>
              isActive (ps ! i) \<and>
              (\<forall>j<i. \<not> isActive (ps ! j)) \<and>
              (\<forall>q\<in>set ps. isActive q \<longrightarrow> provider_id (ps ! i) \<le> provider_id q)"
      by auto
  qed
  from ps act none some show ?thesis by blast
qed

theorem getActiveProvider_first_witness:
  "\<exists>ps. fst (getProviders (world_with [provider_row 3 (JString ''C'') (JNumber 1) JNull,
                          provider_row 1 (JString ''A'') (JNumber 0) JNull,
                          provider_row 2 (JString ''B'') (JNumber 1) JNull])) = Inr ps \<and>
     map provider_id ps = [1, 2, 3] \<and> map isActive ps = [False, True, True] \<and>
     fst (getActiveProvider (world_with [provider_row 3 (JString ''C'') (JNumber 1) JNull,
                          provider_row 1 (JString ''A'') (JNumber 0) JNull,
                          provider_row 2 (JString ''B'') (JNumber 1) JNull])) = Inr (Some (ps ! 1)) \<and>
     provider_id (ps ! 1) = 2"
  using getActiveProvider_first [of "world_with [provider_row 3 (JString ''C'') (JNumber 1) JNull,
                          provider_row 1 (JString ''A'') (JNumber 0) JNull,
                          provider_row 2 (JString ''B'') (JNumber 1) JNull]"]
  by (auto simp add: world_with_def provider_row_def toProvider_def js_or_def getProviders_value)

text \<open>
  C4. When the file exists and the driver calls succeed, \<open>getProviders\<close> returns one record
  for each stored row, whatever the fields hold: a name that is missing (\<open>null\<close>,
  \<open>undefined\<close>, empty) becomes \<open>Unknown\<close>, a model mapping on which \<open>JSON.parse\<close> throws
  becomes \<open>undefined\<close>, and the rows after such a row are read all the same.
\<close>

theorem row_defects_tolerated:
  assumes "db_exists w" and "db_open w = None" and "db_table w = Inr t" and "db_close w = None"
  shows "\<exists>ps. fst (getProviders w) = Inr ps \<and> length ps = length t \<and>
           (\<forall>i<length t.
              provider_id (ps ! i) = r_id (sort_key r_id t ! i) \<and>
              name (ps ! i) = (if truthy (r_name (sort_key r_id t ! i))
                               then r_name (sort_key r_id t ! i) else JString ''Unknown'') \<and>
              models (ps ! i) = (if truthy (r_models (sort_key r_id t ! i))
                                 then (case JSON_parse w (r_models (sort_key r_id t ! i)) of
                                         Inl e \<Rightarrow> JUndefined | Inr v \<Rightarrow> v)
                                 else JUndefined))"
  using assms
  by (simp add: getProviders_value toProvider_def js_or_def parseModels_def)

theorem row_defects_tolerated_witness:
  "db_exists (world_with [provider_row 1 JNull (JNumber 0) (JString ''{oops''),
                          provider_row 2 (JString ''B'') (JNumber 1) (JString ''{}'')]) \<and>
   JSON_parse (world_with []) (JString ''{oops'') = Inl (External ''SyntaxError'') \<and>
   (\<exists>ps. fst (getProviders (world_with [provider_row 1 JNull (JNumber 0) (JString ''{oops''),
                          provider_row 2 (JString ''B'') (JNumber 1) (JString ''{}'')])) = Inr ps \<and>
      length ps = 2 \<and>
      name (ps ! 0) = JString ''Unknown'' \<and> models (ps ! 0) = JUndefined \<and>
      name (ps ! 1) = JString ''B'' \<and> models (ps ! 1) = JObject [])"
  using row_defects_tolerated [of "world_with [provider_row 1 JNull (JNumber 0) (JString ''{oops''),
                          provider_row 2 (JString ''B'') (JNumber 1) (JString ''{}'')]"
                          "[provider_row 1 JNull (JNumber 0) (JString ''{oops''),
                          provider_row 2 (JString ''B'') (JNumber 1) (JString ''{}'')]"]
  by (auto simp add: world_with_def provider_row_def example_parse_def)

text \<open>
  C5. When the database file does not exist, \<open>isInstalled\<close> is false, \<open>getProviders\<close>
  returns the empty list and \<open>getActiveProvider\<close> returns \<open>null\<close>; each of them returns.
\<close>

theorem missing_store:
  "\<not> db_exists w \<Longrightarrow>
     isInstalled w = False \<and> fst (getProviders w) = Inr [] \<and> fst (getActiveProvider w) = Inr None"
proof -
  assume a: "\<not> db_exists w"
  then have g: "fst (getProviders w) = Inr []" by (simp add: getProviders_value)
  from getActiveProvider_value [OF g] a g show ?thesis
    by (simp add: isInstalled_def)
qed

theorem missing_store_witness:
  "\<not> db_exists ((world_with []) \<lparr> db_exists := False \<rparr>) \<and>
   isInstalled ((world_with []) \<lparr> db_exists := False \<rparr>) = False \<and>
   fst (getProviders ((world_with []) \<lparr> db_exists := False \<rparr>)) = Inr [] \<and>
   fst (getActiveProvider ((world_with []) \<lparr> db_exists := False \<rparr>)) = Inr None"
  using missing_store [of "(world_with []) \<lparr> db_exists := False \<rparr>"]
  by (simp add: world_with_def)

text \<open>
  C6. When the connection has been opened, \<open>getProviders\<close> returns, and the driver calls
  it has made are, in this order: the opening with \<open>readonly\<close> set, the query, and
  \<open>db.close()\<close>, on every path (the query throws or not, \<open>close\<close> throws or not). The
  \<open>finally\<close> block calls \<open>db.close()\<close> last whatever its \<open>try\<close> block does, so also for a
  row mapping that throws.
\<close>

theorem connection_closed:
  "(db_exists w \<and> db_open w = None \<longrightarrow>
      (\<exists>ps. fst (getProviders w) = Inr ps) \<and>
      filter is_db_event (drop (length (trace w)) (trace (snd (getProviders w)))) =
        [DbOpen True, DbQueryAll select_all_order_by_id, DbClose]) \<and>
   (\<forall>body w1. trace (snd (try_finally body db_close_io w1)) = trace (snd (body w1)) @ [DbClose])"
  by (simp add: getProviders_eval emit_def try_finally_close_trace split: sum.splits option.splits)

theorem connection_closed_witness:
  "db_exists ((world_with []) \<lparr> db_table := Inl (External ''no such table: providers'') \<rparr>) \<and>
   db_open ((world_with []) \<lparr> db_table := Inl (External ''no such table: providers'') \<rparr>) = None \<and>
   fst (getProviders ((world_with []) \<lparr> db_table := Inl (External ''no such table: providers'') \<rparr>)) = Inr [] \<and>
   trace (snd (getProviders ((world_with []) \<lparr> db_table := Inl (External ''no such table: providers'') \<rparr>))) =
     [DbOpen True, DbQueryAll select_all_order_by_id, DbClose,
      Log (ErrorReadFailed (External ''no such table: providers''))]"
  using connection_closed [of "(world_with []) \<lparr> db_table := Inl (External ''no such table: providers'') \<rparr>"]
  by (simp add: world_with_def getProviders_eval emit_def)

text \<open>
  C9. When the file exists and the driver calls succeed, the record of a row is flagged
  active exactly when the column \<open>is_active\<close> of the row is the number 1; for 0, \<open>null\<close>, 2,
  \<open>true\<close> and the string \<open>1\<close> the record is inactive, and the call returns.
\<close>

theorem active_flag:
  assumes "db_exists w" and "db_open w = None" and "db_table w = Inr t" and "db_close w = None"
  shows "\<exists>ps. fst (getProviders w) = Inr ps \<and>
           map provider_id ps = map r_id (sort_key r_id t) \<and>
           map isActive ps = map (\<lambda>r. r_is_active r = JNumber 1) (sort_key r_id t)"
  using assms
  by (simp add: getProviders_value provider_id_toProvider isActive_toProvider comp_def)

theorem active_flag_witness:
  "\<exists>ps. fst (getProviders (world_with
       [provider_row 1 (JString ''A'') (JNumber 1) JNull,
        provider_row 2 (JString ''B'') (JNumber 0) JNull,
        provider_row 3 (JString ''C'') JNull JNull,
        provider_row 4 (JString ''D'') (JNumber 2) JNull,
        provider_row 5 (JString ''E'') (JBool True) JNull,
        provider_row 6 (JString ''F'') (JString ''1'') JNull])) = Inr ps \<and>
     map isActive ps = [True, False, False, False, False, False]"
  using active_flag [of "world_with
       [provider_row 1 (JString ''A'') (JNumber 1) JNull,
        provider_row 2 (JString ''B'') (JNumber 0) JNull,
        provider_row 3 (JString ''C'') JNull JNull,
        provider_row 4 (JString ''D'') (JNumber 2) JNull,
        provider_row 5 (JString ''E'') (JBool True) JNull,
        provider_row 6 (JString ''F'') (JString ''1'') JNull]" "[provider_row 1 (JString ''A'') (JNumber 1) JNull,
        provider_row 2 (JString ''B'') (JNumber 0) JNull,
        provider_row 3 (JString ''C'') JNull JNull,
        provider_row 4 (JString ''D'') (JNumber 2) JNull,
        provider_row 5 (JString ''E'') (JBool True) JNull,
        provider_row 6 (JString ''F'') (JString ''1'') JNull]"]
  by (auto simp add: world_with_def provider_row_def)

section \<open>Launching the companion application\<close>

text \<open>
  C7. On Linux, with a launch command that fails, the promise of \<open>openCCSwitch\<close> is
  fulfilled, not rejected: the body of the function has ended when the callback of
  \<open>exec\<close> runs. The callback logs the warning and throws, and nothing catches the error.
\<close>

theorem launch_failure_not_rejected:
  "promise (openCCSwitch ''linux'' failing_launcher) = Inr () \<and>
   uncaught (openCCSwitch ''linux'' failing_launcher) = Some CannotOpenCCSwitch \<and>
   open_log (openCCSwitch ''linux'' failing_launcher) = [WarnCannotAutoOpen] \<and>
   handleOpenCCSwitch ''linux'' failing_launcher =
     (\<lparr> success = True, response_error = None \<rparr>, [InfoHandlerOpening])"
  by (simp add: handleOpenCCSwitch_def openCCSwitch_def openCCSwitch_body_def exec_callback_def
      failing_launcher_def Let_def)

section \<open>The presentation host\<close>

text \<open>
  C8. \<open>postMessage\<close> throws exactly when the service holds no surface. When it holds one,
  the call returns and the surface has received one more message, the object with the
  properties \<open>type\<close>, which is \<open>from-extension\<close>, and \<open>message\<close>, which is the payload as
  it was given.
\<close>

theorem postMessage_envelope:
  "(isl (fst (postMessage payload s)) \<longleftrightarrow> webview s = None) \<and>
   (\<forall>wv. webview s = Some wv \<longrightarrow>
      fst (postMessage payload s) = Inr () \<and>
      webview (snd (postMessage payload s)) =
        Some (wv\<lparr>received := received wv @
          [JObject [(''type'', JString ''from-extension''), (''message'', payload)]]\<rparr>))"
  by (simp add: postMessage_def split: option.splits)

theorem postMessage_envelope_witness:
  "webview (resolveWebviewView ''<html>'' \<lparr> enableScripts = False, html = [], received = [] \<rparr> new_WebViewService)
     = Some \<lparr> enableScripts = True, html = ''<html>'', received = [] \<rparr> \<and>
   fst (postMessage (JObject [(''foo'', JNumber 1)])
          (resolveWebviewView ''<html>'' \<lparr> enableScripts = False, html = [], received = [] \<rparr> new_WebViewService))
     = Inr () \<and>
   webview (snd (postMessage (JObject [(''foo'', JNumber 1)])
          (resolveWebviewView ''<html>'' \<lparr> enableScripts = False, html = [], received = [] \<rparr> new_WebViewService)))
     = Some \<lparr> enableScripts = True, html = ''<html>'',
              received = [JObject [(''type'', JString ''from-extension''),
                                   (''message'', JObject [(''foo'', JNumber 1)])]] \<rparr> \<and>
   webview new_WebViewService = None \<and>
   fst (postMessage (JObject [(''foo'', JNumber 1)]) new_WebViewService) = Inl WebViewNotInitialized"
  using postMessage_envelope [of "JObject [(''foo'', JNumber 1)]"
          "resolveWebviewView ''<html>'' \<lparr> enableScripts = False, html = [], received = [] \<rparr> new_WebViewService"]
        postMessage_envelope [of "JObject [(''foo'', JNumber 1)]" new_WebViewService]
  by (auto simp add: resolveWebviewView_def new_WebViewService_def postMessage_def)

section \<open>The change watcher\<close>

text \<open>One step of the gate, a run of it against the gate of the specification, and the
  state of a watch instance whose callback has not been invoked yet.\<close>

lemma handleChange_step:
  "(now ev - lastModTime s < debounceMs \<longrightarrow> handleChange ev s = s) \<and>
   (\<not> now ev - lastModTime s < debounceMs \<longrightarrow>
      lastModTime (handleChange ev s) = now ev \<and>
      calls (handleChange ev s) = calls s @
        [\<lparr> filePath = fsPath ev, changeType = kind ev, timestamp = date ev \<rparr>])"
  by (simp add: handleChange_def)

lemma gate_refines:
  "\<forall>ev\<in>set evs. debounceMs \<le> now ev \<Longrightarrow>
   lastModTime s = (case prev of None \<Rightarrow> 0 | Some a \<Rightarrow> now a) \<Longrightarrow>
   calls (deliver evs s) = calls s @ snd (spec_gate prev evs) \<and>
   lastModTime (deliver evs s) = (case fst (spec_gate prev evs) of None \<Rightarrow> 0 | Some a \<Rightarrow> now a)"
proof (induction evs arbitrary: s prev)
  case Nil
  then show ?case by (simp add: deliver_def)
next
  case (Cons ev evs)
  have ge: "debounceMs \<le> now ev" and rest: "\<forall>e\<in>set evs. debounceMs \<le> now e"
    using Cons.prems(1) by simp_all
  have unfold: "deliver (ev # evs) s = deliver evs (handleChange ev s)"
    by (simp add: deliver_def)
  show ?case
  proof (cases "now ev - lastModTime s < debounceMs")
    case True
    then obtain a where a: "prev = Some a"
      using ge Cons.prems(2) by (cases prev) auto
    have same: "handleChange ev s = s" using True by (simp add: handleChange_def)
    have drop: "spec_gate prev (ev # evs) = spec_gate prev evs"
      using True a Cons.prems(2) by (simp add: debounceMs_def)
    show ?thesis
      unfolding unfold same drop using Cons.IH [OF rest Cons.prems(2)] .
  next
    case False
    let ?s = "handleChange ev s"
    have st: "lastModTime ?s = (case Some ev of None \<Rightarrow> 0 | Some a \<Rightarrow> now a)"
      using False by (simp add: handleChange_def)
    have cs: "calls ?s = calls s @ [\<lparr> filePath = fsPath ev, changeType = kind ev, timestamp = date ev \<rparr>]"
      using False by (simp add: handleChange_def)
    have nodrop: "\<not> (case prev of None \<Rightarrow> False | Some a \<Rightarrow> now ev - now a < 500)"
      using False Cons.prems(2) by (cases prev) (auto simp: debounceMs_def)
    have sp: "spec_gate prev (ev # evs) =
        (fst (spec_gate (Some ev) evs),
         \<lparr> filePath = fsPath ev, changeType = kind ev, timestamp = date ev \<rparr> # snd (spec_gate (Some ev) evs))"
      using nodrop by (simp add: case_prod_beta)
    show ?thesis
      unfolding unfold sp using Cons.IH [OF rest st] cs by simp
  qed
qed

lemma quiet_invariant:
  "(calls s = [] \<longrightarrow> lastModTime s = 0) \<Longrightarrow>
   (calls (deliver evs s) = [] \<longrightarrow> lastModTime (deliver evs s) = 0)"
proof (induction evs arbitrary: s)
  case Nil
  then show ?case by (simp add: deliver_def)
next
  case (Cons ev evs)
  have "calls (handleChange ev s) = [] \<longrightarrow> lastModTime (handleChange ev s) = 0"
    using Cons.prems by (simp add: handleChange_def)
  from Cons.IH [OF this] show ?case by (simp add: deliver_def)
qed

text \<open>
  C1. The handler drops an event, leaving the state as it is, when \<open>now - lastModTime\<close> is
  below 500; otherwise it stores \<open>now\<close> and invokes the callback once, with the kind of
  the event. On a watch instance just registered, for events that all arrive at 500 ms
  after the epoch or later, the callback invocations are those of the gate of the
  specification, and \<open>lastModTime\<close> is the arrival time of the last accepted event. For
  two events, the first at a time \<open>T\<close> of at least 500: with the second at \<open>T + 200\<close> the
  callback is invoked once, for the first; with the second at \<open>T + 600\<close>, twice.
\<close>

theorem debounce_gate:
  assumes "\<forall>ev\<in>set evs. debounceMs \<le> now ev" and "snd (watchFile True file_path lbl) = Some inst"
  shows "calls (deliver evs inst) = snd (spec_gate None evs) \<and>
         lastModTime (deliver evs inst) = (case fst (spec_gate None evs) of None \<Rightarrow> 0 | Some a \<Rightarrow> now a) \<and>
         (\<forall>ev s. (now ev - lastModTime s < debounceMs \<longrightarrow> handleChange ev s = s) \<and>
                 (\<not> now ev - lastModTime s < debounceMs \<longrightarrow>
                    lastModTime (handleChange ev s) = now ev \<and>
                    calls (handleChange ev s) = calls s @
                      [\<lparr> filePath = fsPath ev, changeType = kind ev, timestamp = date ev \<rparr>])) \<and>
         (\<forall>a b. debounceMs \<le> now a \<longrightarrow>
            (now b = now a + 200 \<longrightarrow> calls (deliver [a, b] inst) =
               [\<lparr> filePath = fsPath a, changeType = kind a, timestamp = date a \<rparr>]) \<and>
            (now b = now a + 600 \<longrightarrow> calls (deliver [a, b] inst) =
               [\<lparr> filePath = fsPath a, changeType = kind a, timestamp = date a \<rparr>,
                \<lparr> filePath = fsPath b, changeType = kind b, timestamp = date b \<rparr>]))"
proof -
  have inst: "inst = \<lparr> label = lbl, lastModTime = 0, calls = [], logged = [] \<rparr>"
    using assms(2) by (simp add: watchFile_def)
  have init: "lastModTime inst = (case None of None \<Rightarrow> 0 | Some a \<Rightarrow> now a)"
    by (simp add: inst)
  have run: "calls (deliver evs inst) = snd (spec_gate None evs) \<and>
         lastModTime (deliver evs inst) = (case fst (spec_gate None evs) of None \<Rightarrow> 0 | Some a \<Rightarrow> now a)"
    using gate_refines [OF assms(1) init] by (simp add: inst)
  have two: "\<forall>a b. debounceMs \<le> now a \<longrightarrow>
            (now b = now a + 200 \<longrightarrow> calls (deliver [a, b] inst) =
               [\<lparr> filePath = fsPath a, changeType = kind a, timestamp = date a \<rparr>]) \<and>
            (now b = now a + 600 \<longrightarrow> calls (deliver [a, b] inst) =
               [\<lparr> filePath = fsPath a, changeType = kind a, timestamp = date a \<rparr>,
                \<lparr> filePath = fsPath b, changeType = kind b, timestamp = date b \<rparr>])"
    by (simp add: inst deliver_def handleChange_def debounceMs_def)
  from run handleChange_step two show ?thesis by blast
qed

theorem debounce_gate_witness:
  "debounceMs \<le> now (settings_event Created 1000) \<and>
   debounceMs \<le> now (settings_event Modified 1200) \<and>
   debounceMs \<le> now (settings_event Deleted 1600) \<and>
   snd (watchClaudeSettings True settings_path) = Some settings_watch \<and>
   calls (deliver [settings_event Created 1000, settings_event Modified 1200,
                   settings_event Deleted 1600] settings_watch)
     = [\<lparr> filePath = settings_path, changeType = Created, timestamp = 1000 \<rparr>,
        \<lparr> filePath = settings_path, changeType = Deleted, timestamp = 1600 \<rparr>] \<and>
   lastModTime (deliver [settings_event Created 1000, settings_event Modified 1200,
                         settings_event Deleted 1600] settings_watch) = 1600 \<and>
   length (calls (deliver [settings_event Modified 1000, settings_event Modified 1200]
                    settings_watch)) = 1 \<and>
   length (calls (deliver [settings_event Modified 1000, settings_event Modified 1600]
                    settings_watch)) = 2"
  using debounce_gate [where file_path = settings_path and lbl = "''Claude Settings''"
          and inst = settings_watch
          and evs = "[settings_event Created 1000, settings_event Modified 1200,
                      settings_event Deleted 1600]"]
  by (simp add: watchClaudeSettings_def watchFile_def settings_watch_def settings_event_def
      debounceMs_def)

text \<open>
  On a watch instance just registered, events at the times 0 and 200 invoke the callback
  not at all, where the gate of the specification invokes it once, for the first; events
  at the times 0 and 600 invoke it once, for the second.
\<close>

theorem debounce_gate_counterexample:
  "snd (watchClaudeSettings True settings_path) = Some settings_watch \<and>
   calls (deliver [settings_event Modified 0, settings_event Modified 200] settings_watch) = [] \<and>
   snd (spec_gate None [settings_event Modified 0, settings_event Modified 200])
     = [\<lparr> filePath = settings_path, changeType = Modified, timestamp = 0 \<rparr>] \<and>
   calls (deliver [settings_event Modified 0, settings_event Modified 600] settings_watch)
     = [\<lparr> filePath = settings_path, changeType = Modified, timestamp = 600 \<rparr>]"
  by (simp add: watchClaudeSettings_def watchFile_def settings_watch_def settings_event_def
      deliver_def handleChange_def debounceMs_def)

text \<open>
  C10. On a watch instance just registered, an event that arrives at 500 ms after the
  epoch or later is accepted: the callback is invoked with it and \<open>lastModTime\<close> becomes
  its arrival time. After any events delivered before, such an event is dropped only when
  the callback has been invoked before.
\<close>

theorem first_event_passes:
  assumes "snd (watchFile True file_path lbl) = Some inst" and "debounceMs \<le> now ev"
  shows "calls (handleChange ev inst) =
           [\<lparr> filePath = fsPath ev, changeType = kind ev, timestamp = date ev \<rparr>] \<and>
         lastModTime (handleChange ev inst) = now ev \<and>
         (\<forall>pre. calls (handleChange ev (deliver pre inst)) = calls (deliver pre inst) \<longrightarrow>
                calls (deliver pre inst) \<noteq> [])"
proof -
  have inst: "inst = \<lparr> label = lbl, lastModTime = 0, calls = [], logged = [] \<rparr>"
    using assms(1) by (simp add: watchFile_def)
  have first: "calls (handleChange ev inst) =
           [\<lparr> filePath = fsPath ev, changeType = kind ev, timestamp = date ev \<rparr>] \<and>
         lastModTime (handleChange ev inst) = now ev"
    using assms(2) by (simp add: inst handleChange_def)
  have later: "calls (deliver pre inst) \<noteq> []"
    if dropped: "calls (handleChange ev (deliver pre inst)) = calls (deliver pre inst)" for pre
  proof
    assume quiet: "calls (deliver pre inst) = []"
    have "calls inst = [] \<longrightarrow> lastModTime inst = 0" by (simp add: inst)
    from quiet_invariant [OF this, of pre] quiet have "lastModTime (deliver pre inst) = 0"
      by simp
    then have "calls (handleChange ev (deliver pre inst)) \<noteq> calls (deliver pre inst)"
      using assms(2) by (simp add: handleChange_def)
    with dropped show False by simp
  qed
  from first later show ?thesis by blast
qed

theorem first_event_passes_witness:
  "snd (watchClaudeSettings True settings_path) = Some settings_watch \<and>
   debounceMs \<le> now (settings_event Modified 500) \<and>
   calls (handleChange (settings_event Modified 500) settings_watch)
     = [\<lparr> filePath = settings_path, changeType = Modified, timestamp = 500 \<rparr>] \<and>
   lastModTime (handleChange (settings_event Modified 500) settings_watch) = 500 \<and>
   calls (handleChange (settings_event Modified 500)
            (deliver [settings_event Created 500] settings_watch))
     = calls (deliver [settings_event Created 500] settings_watch) \<and>
   calls (deliver [settings_event Created 500] settings_watch) \<noteq> []"
  using first_event_passes [where file_path = settings_path and lbl = "''Claude Settings''"
          and inst = settings_watch and ev = "settings_event Modified 500"]
  by (simp add: watchClaudeSettings_def watchFile_def settings_watch_def settings_event_def
      debounceMs_def deliver_def handleChange_def)

end
